theory Spec2Isabelle
  imports Complex_Main
begin

section \<open>Moving-average costing and stock ledger of the inventory application\<close>

text \<open>
  The development embeds the two transactional handlers of the application,
  \<open>handleReceiveItems\<close> (goods receipt of a purchase order) and
  \<open>handleShipOrder\<close> (shipment of a sales order), together with the two
  functions of the order form that decide what such orders contain
  (\<open>handleItemChange\<close>, \<open>handleSubmit\<close>).

  Numbers. JavaScript numbers are IEEE doubles. Quantities and stock are the
  integers the form produces (\<open>parseInt\<close>) and are modelled as \<open>int\<close>; costs
  and prices are modelled as exact rationals, so the rounding of binary
  floating point is outside the model. The idiom \<open>x || 0\<close> is \<open>or0\<close>.

  Documents. Only the fields the handlers read or write are kept; the
  timestamp fields (\<open>serverTimestamp()\<close>) are written and never read, and
  are left out, and so is the \<open>totalAmount\<close> of an order, which is computed
  when the order is created and read only by the lists and reports. A
  product document has the fields \<open>handleAdd\<close> gives it
  (line 799). The fields \<open>name\<close> and \<open>cost\<close> of a line item are
  \<open>item_name\<close> and \<open>item_cost\<close> here, and the fields of the two kinds of
  log entries carry a prefix where they share a name.
\<close>

subsection \<open>Documents\<close>

type_synonym doc_id = string

record product =
  brand :: string
  name :: string
  spec :: string
  stock :: int
  averageCost :: rat
  cost :: rat
  price_retail :: rat
  price_bronze :: rat
  price_silver :: rat
  price_gold :: rat

text \<open>A line item of an order; \<open>costAtSale\<close> is absent until the order is shipped.\<close>

record line_item =
  productId :: doc_id
  quantity :: int
  item_name :: string
  price :: rat
  item_cost :: rat
  costAtSale :: "rat option"

record order =
  partyName :: string
  orderNumber :: string
  status :: string
  items :: "line_item list"

record inventory_log =
  inv_productId :: doc_id
  inv_productName :: string
  inv_type :: string
  change :: int
  newStock :: int
  inv_relatedDoc :: string

record cost_log =
  cl_productId :: doc_id
  cl_productName :: string
  cl_type :: string
  cl_relatedDoc :: string
  oldAvgCost :: rat
  newAvgCost :: rat

text \<open>
  The database: three keyed collections and the two append-only log
  collections, whose documents get fresh ids and are kept in the order in
  which they were written.
\<close>

record db =
  products :: "doc_id \<rightharpoonup> product"
  purchaseOrders :: "doc_id \<rightharpoonup> order"
  salesOrders :: "doc_id \<rightharpoonup> order"
  inventoryLogs :: "inventory_log list"
  costLogs :: "cost_log list"

subsection \<open>Errors and outcomes\<close>

text \<open>
  The handlers throw \<open>Error\<close> objects that differ in their message; each
  message is a constructor. \<open>ReadAfterWrite\<close> and \<open>DocumentNotFound\<close> are
  raised by the database library, the last two by the order form.
\<close>

datatype error =
    OrderNotReceivable
  | ProductNotFound doc_id
  | InsufficientStock string
  | ReadAfterWrite
  | DocumentNotFound
  | TypeError
  | NoPartySelected
  | NoValidItems

datatype outcome = Succeeded | Failed error | Cancelled

subsection \<open>The transaction of the database library\<close>

text \<open>
  \<open>runTransaction\<close>, \<open>transaction.get\<close>, \<open>transaction.update\<close> and
  \<open>transaction.set\<close> are imported from \<open>firebase/firestore\<close> (line 179) and
  are not part of the repository. They are modelled by the contract of that
  library:
  \<^item> \<open>get\<close> returns the committed document, or nothing when it does not exist;
  \<^item> \<open>update\<close> and \<open>set\<close> only stage a write;
  \<^item> all reads of a transaction must come before its writes: a \<open>get\<close> issued
    once a write is staged is rejected (``Firestore transactions require all
    reads to be executed before all writes'');
  \<^item> an exception in the update function discards the staged writes;
  \<^item> otherwise the staged writes are applied together, in the order in which
    they were staged; an \<open>update\<close> of a document that does not exist makes the
    whole commit fail.
  Concurrent transactions are not modelled: every handler runs alone.
\<close>

datatype mutation =
    UpdateProduct doc_id "product \<Rightarrow> product"
  | UpdatePurchaseOrder doc_id "order \<Rightarrow> order"
  | UpdateSalesOrder doc_id "order \<Rightarrow> order"
  | SetInventoryLog inventory_log
  | SetCostLog cost_log

record transaction =
  snapshot :: db
  mutations :: "mutation list"

definition tx_get :: "transaction \<Rightarrow> (db \<Rightarrow> doc_id \<rightharpoonup> 'a) \<Rightarrow> doc_id \<Rightarrow> error + 'a option" where
  "tx_get tx coll k =
     (if mutations tx \<noteq> [] then Inl ReadAfterWrite else Inr (coll (snapshot tx) k))"

definition tx_write :: "transaction \<Rightarrow> mutation \<Rightarrow> transaction" where
  "tx_write tx m = tx\<lparr>mutations := mutations tx @ [m]\<rparr>"

fun apply_mutation :: "mutation \<Rightarrow> db \<Rightarrow> error + db" where
  "apply_mutation (UpdateProduct k f) d =
     (case products d k of
        None \<Rightarrow> Inl DocumentNotFound
      | Some p \<Rightarrow> Inr (d\<lparr>products := (products d)(k \<mapsto> f p)\<rparr>))"
| "apply_mutation (UpdatePurchaseOrder k f) d =
     (case purchaseOrders d k of
        None \<Rightarrow> Inl DocumentNotFound
      | Some ord \<Rightarrow> Inr (d\<lparr>purchaseOrders := (purchaseOrders d)(k \<mapsto> f ord)\<rparr>))"
| "apply_mutation (UpdateSalesOrder k f) d =
     (case salesOrders d k of
        None \<Rightarrow> Inl DocumentNotFound
      | Some ord \<Rightarrow> Inr (d\<lparr>salesOrders := (salesOrders d)(k \<mapsto> f ord)\<rparr>))"
| "apply_mutation (SetInventoryLog l) d = Inr (d\<lparr>inventoryLogs := inventoryLogs d @ [l]\<rparr>)"
| "apply_mutation (SetCostLog l) d = Inr (d\<lparr>costLogs := costLogs d @ [l]\<rparr>)"

fun commit :: "mutation list \<Rightarrow> db \<Rightarrow> error + db" where
  "commit [] d = Inr d"
| "commit (m # ms) d =
     (case apply_mutation m d of Inl e \<Rightarrow> Inl e | Inr d' \<Rightarrow> commit ms d')"

definition runTransaction :: "db \<Rightarrow> (transaction \<Rightarrow> error + transaction) \<Rightarrow> outcome \<times> db" where
  "runTransaction d updateFunction =
     (case updateFunction \<lparr>snapshot = d, mutations = []\<rparr> of
        Inl e \<Rightarrow> (Failed e, d)
      | Inr tx \<Rightarrow>
          (case commit (mutations tx) d of
             Inl e \<Rightarrow> (Failed e, d)
           | Inr d' \<Rightarrow> (Succeeded, d')))"

subsection \<open>Built-ins of the language\<close>

definition or0 :: "'a::zero \<Rightarrow> 'a" where
  "or0 x = (if x = 0 then 0 else x)"

text \<open>
  \<open>x.toFixed(5)\<close> renders the sign, then the integer \<open>n\<close> nearest to
  \<open>|x| * 10^5\<close> (the larger one on a tie) in fixed notation, or, from
  \<open>10^21\<close> on, the shortest exponent notation of \<open>|x|\<close>. Two renderings are
  the same string exactly when they agree in sign and in \<open>n\<close> (respectively
  in \<open>|x|\<close>), which is what \<open>fixed\<close> records.
\<close>

datatype fixed = Fixed bool nat | Exponent bool rat

definition toFixed5 :: "rat \<Rightarrow> fixed" where
  "toFixed5 x =
     (if 10 ^ 21 \<le> \<bar>x\<bar> then Exponent (x < 0) \<bar>x\<bar>
      else Fixed (x < 0) (nat \<lfloor>\<bar>x\<bar> * 100000 + 1 / 2\<rfloor>))"

text \<open>\<open>trim\<close>, on the white space of ASCII.\<close>

definition is_space :: "char \<Rightarrow> bool" where
  "is_space c = (c \<in> set [CHR '' '', CHR 0x09, CHR 0x0A, CHR 0x0B, CHR 0x0C, CHR 0x0D])"

definition trim :: "string \<Rightarrow> string" where
  "trim s = rev (dropWhile is_space (rev (dropWhile is_space s)))"

subsection \<open>Goods receipt: \<open>handleReceiveItems\<close> (lines 1150-1188)\<close>

text \<open>
  Line 1166, \<open>newAvgCost\<close>, as a function of the four values it is computed
  from: the old stock and average cost, the quantity and unit cost received.
\<close>

definition receiptAvgCost :: "int \<Rightarrow> rat \<Rightarrow> int \<Rightarrow> rat \<Rightarrow> rat" where
  "receiptAvgCost oldStock oldAvg qty unitCost =
     (if oldStock + qty > 0
      then (of_int oldStock * oldAvg + of_int qty * unitCost) / of_int (oldStock + qty)
      else unitCost)"

text \<open>The body of \<open>for (const item of order.items)\<close>, one line item per step.\<close>

fun receiveItems :: "string \<Rightarrow> transaction \<Rightarrow> line_item list \<Rightarrow> error + transaction" where
  "receiveItems relatedDoc tx [] = Inr tx"
| "receiveItems relatedDoc tx (item # rest) =
     (case tx_get tx products (productId item) of
        Inl e \<Rightarrow> Inl e
      | Inr None \<Rightarrow> Inl (ProductNotFound (productId item))
      | Inr (Some productData) \<Rightarrow>
          (let oldStock = or0 (stock productData);
               oldAvg = or0 (averageCost productData);
               newStk = oldStock + quantity item;
               newAvg = receiptAvgCost oldStock oldAvg (quantity item) (item_cost item);
               tx1 = tx_write tx (UpdateProduct (productId item)
                       (\<lambda>p. p\<lparr>stock := newStk, averageCost := newAvg, cost := item_cost item\<rparr>));
               tx2 = tx_write tx1 (SetInventoryLog
                       \<lparr>inv_productId = productId item, inv_productName = item_name item,
                        inv_type = ''in'', change = quantity item, newStock = newStk,
                        inv_relatedDoc = relatedDoc\<rparr>);
               tx3 = (if toFixed5 oldAvg \<noteq> toFixed5 newAvg
                      then tx_write tx2 (SetCostLog
                             \<lparr>cl_productId = productId item, cl_productName = item_name item,
                              cl_type = ''in'', cl_relatedDoc = relatedDoc,
                              oldAvgCost = oldAvg, newAvgCost = newAvg\<rparr>)
                      else tx2)
           in receiveItems relatedDoc tx3 rest))"

text \<open>
  The handler gets the order as the client sees it (\<open>oid\<close> is \<open>order.id\<close>):
  the status is read from the stored document, the line items and the order
  number from the argument.
\<close>

definition handleReceiveItems :: "db \<Rightarrow> doc_id \<Rightarrow> order \<Rightarrow> outcome \<times> db" where
  "handleReceiveItems d oid ord =
     runTransaction d (\<lambda>tx.
       case tx_get tx purchaseOrders oid of
         Inl e \<Rightarrow> Inl e
       | Inr None \<Rightarrow> Inl OrderNotReceivable
       | Inr (Some orderDoc) \<Rightarrow>
           if status orderDoc = ''Received'' then Inl OrderNotReceivable
           else (case receiveItems (orderNumber ord) tx (items ord) of
                   Inl e \<Rightarrow> Inl e
                 | Inr tx' \<Rightarrow>
                     Inr (tx_write tx' (UpdatePurchaseOrder oid (\<lambda>doc. doc\<lparr>status := ''Received''\<rparr>)))))"

subsection \<open>Shipment: \<open>handleShipOrder\<close> (lines 1500-1539)\<close>

fun shipItems ::
  "string \<Rightarrow> transaction \<Rightarrow> line_item list \<Rightarrow> line_item list \<Rightarrow> error + transaction \<times> line_item list"
where
  "shipItems relatedDoc tx updatedItems [] = Inr (tx, updatedItems)"
| "shipItems relatedDoc tx updatedItems (item # rest) =
     (case tx_get tx products (productId item) of
        Inl e \<Rightarrow> Inl e
      | Inr None \<Rightarrow> Inl (InsufficientStock (item_name item))
      | Inr (Some productData) \<Rightarrow>
          if stock productData < quantity item then Inl (InsufficientStock (item_name item))
          else
            (let newStk = stock productData - quantity item;
                 tx1 = tx_write tx (UpdateProduct (productId item) (\<lambda>p. p\<lparr>stock := newStk\<rparr>));
                 updatedItems' =
                   updatedItems @ [item\<lparr>costAtSale := Some (or0 (averageCost productData))\<rparr>];
                 tx2 = tx_write tx1 (SetInventoryLog
                         \<lparr>inv_productId = productId item, inv_productName = item_name item,
                          inv_type = ''out'', change = - quantity item, newStock = newStk,
                          inv_relatedDoc = relatedDoc\<rparr>)
             in shipItems relatedDoc tx2 updatedItems' rest))"

text \<open>\<open>confirmed\<close> is the answer to the confirmation dialog.\<close>

definition handleShipOrder :: "bool \<Rightarrow> db \<Rightarrow> doc_id \<Rightarrow> order \<Rightarrow> outcome \<times> db" where
  "handleShipOrder confirmed d oid ord =
     (if \<not> confirmed then (Cancelled, d)
      else runTransaction d (\<lambda>tx.
        case shipItems (orderNumber ord) tx [] (items ord) of
          Inl e \<Rightarrow> Inl e
        | Inr (tx', updatedItems) \<Rightarrow>
            Inr (tx_write tx' (UpdateSalesOrder oid
                   (\<lambda>doc. doc\<lparr>status := ''Completed'', items := updatedItems\<rparr>)))))"

subsection \<open>The order form: \<open>handleItemChange\<close> and \<open>handleSubmit\<close> (lines 1305-1334)\<close>

datatype field_value = ProductIdValue doc_id | QuantityValue int

definition price_of_tier :: "product \<Rightarrow> string \<Rightarrow> rat option" where
  "price_of_tier p tier =
     (if tier = ''retail'' then Some (price_retail p)
      else if tier = ''bronze'' then Some (price_bronze p)
      else if tier = ''silver'' then Some (price_silver p)
      else if tier = ''gold'' then Some (price_gold p)
      else None)"

text \<open>
  \<open>catalogue\<close> is the product list the form shows, \<open>selectedCustomer\<close> the
  tier of the customer chosen in a sales form. Writing to a row that does
  not exist is a \<open>TypeError\<close>.
\<close>

definition handleItemChange ::
  "bool \<Rightarrow> string option \<Rightarrow> (doc_id \<rightharpoonup> product) \<Rightarrow> line_item list \<Rightarrow> nat \<Rightarrow> field_value
     \<Rightarrow> error + line_item list"
where
  "handleItemChange isSales selectedCustomer catalogue itms index v =
     (if length itms \<le> index then Inl TypeError
      else
        (case v of
           QuantityValue q \<Rightarrow> Inr (itms[index := (itms ! index)\<lparr>quantity := q\<rparr>])
         | ProductIdValue k \<Rightarrow>
             (let it0 = (itms ! index)\<lparr>productId := k\<rparr> in
              case catalogue k of
                None \<Rightarrow> Inr (itms[index := it0])
              | Some p \<Rightarrow>
                  (let it1 = it0\<lparr>item_name := trim (brand p @ '' '' @ name p @ '' '' @ spec p),
                                 item_cost := or0 (cost p)\<rparr>;
                       tier = (case selectedCustomer of
                                 None \<Rightarrow> ''retail''
                               | Some t \<Rightarrow> if t = [] then ''retail'' else t);
                       tierPrice = (case price_of_tier p tier of None \<Rightarrow> 0 | Some x \<Rightarrow> x);
                       it2 = (if isSales
                              then it1\<lparr>price := (if tierPrice \<noteq> 0 then tierPrice
                                                    else or0 (price_retail p))\<rparr>
                              else it1)
                   in Inr (itms[index := it2])))))"

definition handleSubmit :: "string \<Rightarrow> line_item list \<Rightarrow> error + string \<times> line_item list" where
  "handleSubmit party itms =
     (if party = [] then Inl NoPartySelected
      else
        (let finalItems = filter (\<lambda>item. productId item \<noteq> [] \<and> quantity item > 0) itms
         in if length finalItems = 0 then Inl NoValidItems
            else Inr (party, finalItems)))"

subsection \<open>Creating a purchase order: \<open>handleAddOrder\<close> (lines 1145-1148)\<close>

text \<open>
  \<open>addDoc\<close> stores the order under a new document id, \<open>newId\<close>; \<open>now\<close> is
  the rendering of \<open>Date.now()\<close>. The argument of the handler is what
  \<open>handleSubmit\<close> passes on: the party and the line items.
\<close>

definition handleAddOrder :: "db \<Rightarrow> doc_id \<Rightarrow> string \<Rightarrow> string \<Rightarrow> line_item list \<Rightarrow> db" where
  "handleAddOrder d newId now party itms =
     d\<lparr>purchaseOrders := (purchaseOrders d)(newId \<mapsto>
          \<lparr>partyName = party, orderNumber = ''PO-'' @ now, status = ''Pending'', items = itms\<rparr>)\<rparr>"

text \<open>
  The states of the application as far as purchase orders go. The collection
  of purchase orders is written at two places only, \<open>handleAddOrder\<close> (line
  1147) and \<open>handleReceiveItems\<close> (line 1184); the seeding script fills a
  collection of the same name at another path, which the application never
  reads. So the states are those reached from a database without purchase
  orders by creating purchase orders, by receipts and shipments, whatever
  their outcome, and by any change to the products and the sales orders.
\<close>

inductive purchase_states :: "db \<Rightarrow> bool" where
  start: "purchaseOrders d = Map.empty \<Longrightarrow> purchase_states d"
| create: "purchase_states d \<Longrightarrow> purchaseOrders d newId = None \<Longrightarrow>
           purchase_states (handleAddOrder d newId now party itms)"
| receipt: "purchase_states d \<Longrightarrow> handleReceiveItems d oid ord = (r, d') \<Longrightarrow> purchase_states d'"
| shipment: "purchase_states d \<Longrightarrow> handleShipOrder c d oid ord = (r, d') \<Longrightarrow> purchase_states d'"
| others: "purchase_states d \<Longrightarrow> purchase_states (d\<lparr>products := ps, salesOrders := sos\<rparr>)"

subsection \<open>The inventory ledger of a product\<close>

text \<open>The sum of the \<open>change\<close> fields of the inventory log entries of product \<open>k\<close>.\<close>

definition sum_change :: "doc_id \<Rightarrow> inventory_log list \<Rightarrow> int" where
  "sum_change k logs = sum_list (map change (filter (\<lambda>l. inv_productId l = k) logs))"

text \<open>
  The states reached from a database whose products are all freshly created
  (stock 0) and whose inventory log is empty, by successful receipts and
  shipments. Orders are created, approved and annotated in between: the rule
  \<open>orders\<close> lets the two order collections change in any way.
\<close>

inductive reachable :: "db \<Rightarrow> bool" where
  fresh: "inventoryLogs d = [] \<Longrightarrow> (\<forall>k p. products d k = Some p \<longrightarrow> stock p = 0) \<Longrightarrow> reachable d"
| orders: "reachable d \<Longrightarrow> reachable (d\<lparr>purchaseOrders := pos, salesOrders := sos\<rparr>)"
| receive: "reachable d \<Longrightarrow> handleReceiveItems d oid ord = (Succeeded, d') \<Longrightarrow> reachable d'"
| ship: "reachable d \<Longrightarrow> handleShipOrder c d oid ord = (Succeeded, d') \<Longrightarrow> reachable d'"

text \<open>
  A run of receipts of product \<open>k\<close>, each a purchase order of its own with
  one line: \<open>receipts d k rs d'\<close> holds when receiving them in turn leads
  from \<open>d\<close> to \<open>d'\<close>, \<open>rs\<close> being the quantities and unit costs received.
\<close>

inductive receipts :: "db \<Rightarrow> doc_id \<Rightarrow> (int \<times> rat) list \<Rightarrow> db \<Rightarrow> bool" where
  none: "receipts d k [] d"
| more: "handleReceiveItems d oid ord = (Succeeded, d1) \<Longrightarrow> items ord = [item] \<Longrightarrow>
         productId item = k \<Longrightarrow> receipts d1 k rs d' \<Longrightarrow>
         receipts d k ((quantity item, item_cost item) # rs) d'"

subsection \<open>Example data\<close>

definition line :: "doc_id \<Rightarrow> int \<Rightarrow> rat \<Rightarrow> line_item" where
  "line k q c = \<lparr>productId = k, quantity = q, item_name = ''widget'', price = 0, item_cost = c,
     costAtSale = None\<rparr>"

definition order_doc :: "string \<Rightarrow> string \<Rightarrow> line_item list \<Rightarrow> order" where
  "order_doc num st its = \<lparr>partyName = ''party'', orderNumber = num, status = st, items = its\<rparr>"

text \<open>A product as \<open>handleAdd\<close> creates it (line 799), but for the stock and average cost given.\<close>

definition product_doc :: "int \<Rightarrow> rat \<Rightarrow> product" where
  "product_doc s a = \<lparr>brand = [], name = ''widget'', spec = [], stock = s, averageCost = a,
     cost = 0, price_retail = 0, price_bronze = 0, price_silver = 0, price_gold = 0\<rparr>"

definition db_of :: "(doc_id \<times> product) list \<Rightarrow> (doc_id \<times> order) list \<Rightarrow> (doc_id \<times> order) list \<Rightarrow> db" where
  "db_of ps pos sos = \<lparr>products = map_of ps, purchaseOrders = map_of pos, salesOrders = map_of sos,
     inventoryLogs = [], costLogs = []\<rparr>"

text \<open>
  One product with no stock, two pending purchase orders (10 units at 100,
  5 units at 130) and a sales order of 12 units that awaits shipment.
\<close>

definition scenario_db :: db where
  "scenario_db = db_of [(''P'', product_doc 0 0)]
     [(''po1'', order_doc ''PO-1'' ''Pending'' [line ''P'' 10 100]),
      (''po2'', order_doc ''PO-2'' ''Pending'' [line ''P'' 5 130])]
     [(''so1'', order_doc ''SO-1'' ''Pending Shipment'' [line ''P'' 12 0])]"

text \<open>A large stock at an average cost of 100, and a pending purchase order of one unit at 101.\<close>

definition bulk_db :: db where
  "bulk_db = db_of [(''P'', product_doc 1000000 100)]
     [(''po1'', order_doc ''PO-1'' ''Pending'' [line ''P'' 1 101])] []"

text \<open>
  Ten units in stock at an average cost of 100; a purchase order of three
  units whose stored status is \<open>st\<close>, and a sales order of three units
  that awaits shipment.
\<close>

definition shop_db :: "string \<Rightarrow> db" where
  "shop_db st = db_of [(''P'', product_doc 10 100)]
     [(''po1'', order_doc ''PO-1'' st [line ''P'' 3 100])]
     [(''so1'', order_doc ''SO-1'' ''Pending Shipment'' [line ''P'' 3 0])]"

text \<open>Ten units in stock, and a pending purchase order with a line of quantity -3.\<close>

definition negative_db :: db where
  "negative_db = db_of [(''P'', product_doc 10 100)]
     [(''po1'', order_doc ''PO-1'' ''Pending'' [line ''P'' (- 3) 100])] []"

text \<open>
  Five units of \<open>A\<close> and two of \<open>B\<close> in stock; a sales order that awaits
  shipment, of one unit of \<open>A\<close> and nine units of \<open>B\<close>.
\<close>

definition two_products_db :: db where
  "two_products_db = db_of [(''A'', product_doc 5 100), (''B'', product_doc 2 100)] []
     [(''so1'', order_doc ''SO-1'' ''Pending Shipment'' [line ''A'' 1 0, line ''B'' 9 0])]"

text \<open>A fresh product and one pending purchase order with two lines for it: 10 units at 100, 5 units at 130.\<close>

definition two_lines_db :: db where
  "two_lines_db = db_of [(''P'', product_doc 0 0)]
     [(''po1'', order_doc ''PO-1'' ''Pending'' [line ''P'' 10 100, line ''P'' 5 130])] []"

text \<open>The shop after its sales order of three units has been shipped.\<close>

definition shipped_db :: db where
  "shipped_db = snd (handleShipOrder True (shop_db ''Pending'') ''so1''
                       (order_doc ''SO-1'' ''Pending Shipment'' [line ''P'' 3 0]))"

section \<open>Properties\<close>

subsection \<open>Reads must precede writes: at most one line item is ever processed\<close>

lemma or0_id [simp]: "or0 x = x"
  by (simp add: or0_def)

lemma receiveItems_after_write:
  "mutations tx \<noteq> [] \<Longrightarrow> receiveItems r tx (item # rest) = Inl ReadAfterWrite"
  by (simp add: tx_get_def)

lemma shipItems_after_write:
  "mutations tx \<noteq> [] \<Longrightarrow> shipItems r tx acc (item # rest) = Inl ReadAfterWrite"
  by (simp add: tx_get_def)

lemma receiveItems_second:
  "receiveItems r tx (item # item' # rest) \<noteq> Inr tx'"
  by (auto simp add: tx_get_def tx_write_def Let_def split: option.splits)

lemma shipItems_second:
  "shipItems r tx acc (item # item' # rest) \<noteq> Inr res"
  by (auto simp add: tx_get_def tx_write_def Let_def split: option.splits)

lemma handleReceiveItems_SucceededD:
  assumes "handleReceiveItems d oid ord = (Succeeded, d')"
  obtains orderDoc tx' where
    "purchaseOrders d oid = Some orderDoc" "status orderDoc \<noteq> ''Received''"
    "receiveItems (orderNumber ord) \<lparr>snapshot = d, mutations = []\<rparr> (items ord) = Inr tx'"
    "commit (mutations tx' @ [UpdatePurchaseOrder oid (\<lambda>doc. doc\<lparr>status := ''Received''\<rparr>)]) d = Inr d'"
  using assms
  by (auto simp add: handleReceiveItems_def runTransaction_def tx_get_def tx_write_def
           simp del: receiveItems.simps split: option.splits sum.splits if_splits)

lemma handleShipOrder_SucceededD:
  assumes "handleShipOrder c d oid ord = (Succeeded, d')"
  obtains tx' updatedItems where
    "c"
    "shipItems (orderNumber ord) \<lparr>snapshot = d, mutations = []\<rparr> [] (items ord) = Inr (tx', updatedItems)"
    "commit (mutations tx' @ [UpdateSalesOrder oid
        (\<lambda>doc. doc\<lparr>status := ''Completed'', items := updatedItems\<rparr>)]) d = Inr d'"
  using assms
  by (auto simp add: handleShipOrder_def runTransaction_def tx_write_def
           simp del: shipItems.simps split: option.splits sum.splits if_splits prod.splits)

lemma handleReceiveItems_lines:
  assumes "handleReceiveItems d oid ord = (Succeeded, d')"
  shows "length (items ord) \<le> 1"
proof -
  from assms obtain tx' where
    "receiveItems (orderNumber ord) \<lparr>snapshot = d, mutations = []\<rparr> (items ord) = Inr tx'"
    by (rule handleReceiveItems_SucceededD)
  then show ?thesis
    using receiveItems_second
    by (cases "items ord" rule: list.exhaust; cases "tl (items ord)")
       (auto simp del: receiveItems.simps)
qed

lemma handleShipOrder_lines:
  assumes "handleShipOrder c d oid ord = (Succeeded, d')"
  shows "length (items ord) \<le> 1"
proof -
  from assms obtain tx' upd where
    "shipItems (orderNumber ord) \<lparr>snapshot = d, mutations = []\<rparr> [] (items ord) = Inr (tx', upd)"
    by (rule handleShipOrder_SucceededD)
  then show ?thesis
    using shipItems_second
    by (cases "items ord" rule: list.exhaust; cases "tl (items ord)")
       (auto simp del: shipItems.simps)
qed

subsection \<open>What a successful receipt or shipment commits\<close>

lemma handleReceiveItems_empty:
  assumes "items ord = []" "purchaseOrders d oid = Some orderDoc" "status orderDoc \<noteq> ''Received''"
  shows "handleReceiveItems d oid ord =
    (Succeeded, d\<lparr>purchaseOrders := (purchaseOrders d)(oid \<mapsto> orderDoc\<lparr>status := ''Received''\<rparr>)\<rparr>)"
  using assms by (simp add: handleReceiveItems_def runTransaction_def tx_get_def tx_write_def)

lemma handleReceiveItems_one:
  assumes "items ord = [item]" "purchaseOrders d oid = Some orderDoc" "status orderDoc \<noteq> ''Received''"
    "products d (productId item) = Some p"
  shows "handleReceiveItems d oid ord =
    (Succeeded, d\<lparr>products := (products d)(productId item \<mapsto> p\<lparr>stock := stock p + quantity item,
              averageCost := receiptAvgCost (stock p) (averageCost p) (quantity item) (item_cost item),
              cost := item_cost item\<rparr>),
       purchaseOrders := (purchaseOrders d)(oid \<mapsto> orderDoc\<lparr>status := ''Received''\<rparr>),
       inventoryLogs := inventoryLogs d @
          [\<lparr>inv_productId = productId item, inv_productName = item_name item,
            inv_type = ''in'', change = quantity item, newStock = stock p + quantity item,
            inv_relatedDoc = orderNumber ord\<rparr>],
       costLogs := costLogs d @
          (if toFixed5 (averageCost p) \<noteq>
              toFixed5 (receiptAvgCost (stock p) (averageCost p) (quantity item) (item_cost item))
           then [\<lparr>cl_productId = productId item, cl_productName = item_name item,
                   cl_type = ''in'', cl_relatedDoc = orderNumber ord,
                   oldAvgCost = averageCost p,
                   newAvgCost = receiptAvgCost (stock p) (averageCost p) (quantity item) (item_cost item)\<rparr>]
           else [])\<rparr>)"
  using assms
  by (simp add: handleReceiveItems_def runTransaction_def tx_get_def tx_write_def Let_def)

lemma handleShipOrder_empty:
  assumes "items ord = []" "salesOrders d oid = Some orderDoc"
  shows "handleShipOrder True d oid ord =
    (Succeeded, d\<lparr>salesOrders := (salesOrders d)(oid \<mapsto> orderDoc\<lparr>status := ''Completed'', items := []\<rparr>)\<rparr>)"
  using assms by (simp add: handleShipOrder_def runTransaction_def tx_get_def tx_write_def)

lemma handleShipOrder_one:
  assumes "items ord = [item]" "salesOrders d oid = Some orderDoc"
    "products d (productId item) = Some p" "quantity item \<le> stock p"
  shows "handleShipOrder True d oid ord =
    (Succeeded, d\<lparr>products := (products d)(productId item \<mapsto> p\<lparr>stock := stock p - quantity item\<rparr>),
       salesOrders := (salesOrders d)(oid \<mapsto> orderDoc\<lparr>status := ''Completed'',
           items := [item\<lparr>costAtSale := Some (averageCost p)\<rparr>]\<rparr>),
       inventoryLogs := inventoryLogs d @
          [\<lparr>inv_productId = productId item, inv_productName = item_name item,
            inv_type = ''out'', change = - quantity item, newStock = stock p - quantity item,
            inv_relatedDoc = orderNumber ord\<rparr>]\<rparr>)"
  using assms
  by (simp add: handleShipOrder_def runTransaction_def tx_get_def tx_write_def Let_def)

lemma handleReceiveItems_Succeeded_cases:
  assumes "handleReceiveItems d oid ord = (Succeeded, d')"
  obtains (empty) orderDoc where
      "items ord = []" "purchaseOrders d oid = Some orderDoc" "status orderDoc \<noteq> ''Received''"
  | (one) orderDoc item p where
      "items ord = [item]" "purchaseOrders d oid = Some orderDoc" "status orderDoc \<noteq> ''Received''"
      "products d (productId item) = Some p"
proof -
  from assms obtain orderDoc tx' where
    od: "purchaseOrders d oid = Some orderDoc" "status orderDoc \<noteq> ''Received''" and
    run: "receiveItems (orderNumber ord) \<lparr>snapshot = d, mutations = []\<rparr> (items ord) = Inr tx'"
    by (rule handleReceiveItems_SucceededD)
  from assms have len: "length (items ord) \<le> 1" by (rule handleReceiveItems_lines)
  show ?thesis
  proof (cases "items ord")
    case Nil
    with od show ?thesis by (blast intro: empty)
  next
    case (Cons item rest)
    with len have single: "items ord = [item]" by simp
    with run obtain p where "products d (productId item) = Some p"
      by (auto simp add: tx_get_def split: option.splits)
    with single od show ?thesis by (blast intro: one)
  qed
qed

lemma handleShipOrder_Succeeded_cases:
  assumes "handleShipOrder c d oid ord = (Succeeded, d')"
  obtains (empty) orderDoc where
      "c" "items ord = []" "salesOrders d oid = Some orderDoc"
  | (one) orderDoc item p where
      "c" "items ord = [item]" "salesOrders d oid = Some orderDoc"
      "products d (productId item) = Some p" "quantity item \<le> stock p"
proof -
  from assms obtain tx' upd where c: "c" and
    run: "shipItems (orderNumber ord) \<lparr>snapshot = d, mutations = []\<rparr> [] (items ord) = Inr (tx', upd)" and
    com: "commit (mutations tx' @ [UpdateSalesOrder oid
        (\<lambda>doc. doc\<lparr>status := ''Completed'', items := upd\<rparr>)]) d = Inr d'"
    by (rule handleShipOrder_SucceededD)
  from assms have len: "length (items ord) \<le> 1" by (rule handleShipOrder_lines)
  show ?thesis
  proof (cases "items ord")
    case Nil
    with run com obtain orderDoc where "salesOrders d oid = Some orderDoc"
      by (auto split: option.splits)
    with c Nil show ?thesis by (blast intro: empty)
  next
    case (Cons item rest)
    with len have single: "items ord = [item]" by simp
    with run obtain p where p: "products d (productId item) = Some p" "quantity item \<le> stock p"
      by (auto simp add: tx_get_def split: option.splits if_splits)
    with single run com obtain orderDoc where "salesOrders d oid = Some orderDoc"
      by (auto simp add: tx_get_def tx_write_def Let_def split: option.splits)
    with c single show ?thesis using p by (blast intro: one)
  qed
qed

subsection \<open>Evaluation of examples\<close>

lemmas example_defs = db_of_def order_doc_def line_def product_doc_def
lemmas handler_defs = handleReceiveItems_def handleShipOrder_def runTransaction_def tx_get_def
  tx_write_def Let_def receiptAvgCost_def toFixed5_def

subsection \<open>The inventory log follows the stock\<close>

lemma sum_change_append:
  "sum_change k (logs @ [l]) = sum_change k logs + (if inv_productId l = k then change l else 0)"
  by (simp add: sum_change_def)

lemma ledger_receive:
  assumes inv: "\<forall>k p. products d k = Some p \<longrightarrow> sum_change k (inventoryLogs d) = stock p"
    and ok: "handleReceiveItems d oid ord = (Succeeded, d')"
  shows "\<forall>k p. products d' k = Some p \<longrightarrow> sum_change k (inventoryLogs d') = stock p"
  using ok
proof (cases rule: handleReceiveItems_Succeeded_cases)
  case (empty orderDoc)
  with ok handleReceiveItems_empty [OF empty] have
    "products d' = products d" "inventoryLogs d' = inventoryLogs d" by auto
  with inv show ?thesis by simp
next
  case (one orderDoc item p0)
  with ok handleReceiveItems_one [OF one] have
    prods: "products d' = (products d)(productId item \<mapsto> p0\<lparr>stock := stock p0 + quantity item,
              averageCost := receiptAvgCost (stock p0) (averageCost p0) (quantity item) (item_cost item),
              cost := item_cost item\<rparr>)" and
    logs: "inventoryLogs d' = inventoryLogs d @
          [\<lparr>inv_productId = productId item, inv_productName = item_name item,
            inv_type = ''in'', change = quantity item, newStock = stock p0 + quantity item,
            inv_relatedDoc = orderNumber ord\<rparr>]" by auto
  from inv one(4) have "sum_change (productId item) (inventoryLogs d) = stock p0" by simp
  with inv show ?thesis
    by (auto simp add: prods logs sum_change_append)
qed

lemma ledger_ship:
  assumes inv: "\<forall>k p. products d k = Some p \<longrightarrow> sum_change k (inventoryLogs d) = stock p"
    and ok: "handleShipOrder c d oid ord = (Succeeded, d')"
  shows "\<forall>k p. products d' k = Some p \<longrightarrow> sum_change k (inventoryLogs d') = stock p"
  using ok
proof (cases rule: handleShipOrder_Succeeded_cases)
  case (empty orderDoc)
  with ok handleShipOrder_empty [OF empty(2,3)] have
    "products d' = products d" "inventoryLogs d' = inventoryLogs d" by auto
  with inv show ?thesis by simp
next
  case (one orderDoc item p0)
  with ok handleShipOrder_one [OF one(2-5)] have
    prods: "products d' = (products d)(productId item \<mapsto> p0\<lparr>stock := stock p0 - quantity item\<rparr>)" and
    logs: "inventoryLogs d' = inventoryLogs d @
          [\<lparr>inv_productId = productId item, inv_productName = item_name item,
            inv_type = ''out'', change = - quantity item, newStock = stock p0 - quantity item,
            inv_relatedDoc = orderNumber ord\<rparr>]" by auto
  from inv one(4) have "sum_change (productId item) (inventoryLogs d) = stock p0" by simp
  with inv show ?thesis
    by (auto simp add: prods logs sum_change_append)
qed

lemma reachable_ledger:
  "reachable d \<Longrightarrow> \<forall>k p. products d k = Some p \<longrightarrow> sum_change k (inventoryLogs d) = stock p"
proof (induction rule: reachable.induct)
  case (fresh d)
  then show ?case by (simp add: sum_change_def)
next
  case (orders d pos sos)
  then show ?case by simp
next
  case (receive d oid ord d')
  then show ?case by (blast intro: ledger_receive [rule_format])
next
  case (ship d c oid ord d')
  then show ?case by (blast intro: ledger_ship [rule_format])
qed

lemma receive_log_entries:
  assumes ok: "handleReceiveItems d oid ord = (Succeeded, d')"
  shows "\<exists>logs. inventoryLogs d' = inventoryLogs d @ logs \<and>
      map (\<lambda>l. (inv_productId l, change l)) logs = map (\<lambda>item. (productId item, quantity item)) (items ord) \<and>
      (\<forall>l\<in>set logs. map_option stock (products d' (inv_productId l)) = Some (newStock l))"
  using ok
proof (cases rule: handleReceiveItems_Succeeded_cases)
  case (empty orderDoc)
  with ok handleReceiveItems_empty [OF empty] show ?thesis by auto
next
  case (one orderDoc item p0)
  with ok handleReceiveItems_one [OF one] show ?thesis by auto
qed

lemma ship_log_entries:
  assumes ok: "handleShipOrder c d oid ord = (Succeeded, d')"
  shows "\<exists>logs. inventoryLogs d' = inventoryLogs d @ logs \<and>
      map (\<lambda>l. (inv_productId l, change l)) logs = map (\<lambda>item. (productId item, - quantity item)) (items ord) \<and>
      (\<forall>l\<in>set logs. map_option stock (products d' (inv_productId l)) = Some (newStock l))"
  using ok
proof (cases rule: handleShipOrder_Succeeded_cases)
  case (empty orderDoc)
  with ok handleShipOrder_empty [OF empty(2,3)] show ?thesis by auto
next
  case (one orderDoc item p0)
  with ok handleShipOrder_one [OF one(2-5)] show ?thesis by auto
qed

subsection \<open>A handler that does not succeed leaves the database as it was\<close>

lemma runTransaction_unchanged:
  "runTransaction d f = (r, d') \<Longrightarrow> r \<noteq> Succeeded \<Longrightarrow> d' = d"
  by (auto simp add: runTransaction_def split: sum.splits)

lemma handleReceiveItems_unchanged:
  "handleReceiveItems d oid ord = (r, d') \<Longrightarrow> r \<noteq> Succeeded \<Longrightarrow> d' = d"
  unfolding handleReceiveItems_def by (rule runTransaction_unchanged)

lemma handleShipOrder_unchanged:
  "handleShipOrder c d oid ord = (r, d') \<Longrightarrow> r \<noteq> Succeeded \<Longrightarrow> d' = d"
  unfolding handleShipOrder_def by (auto dest: runTransaction_unchanged split: if_splits)

subsection \<open>Two average costs with the same rendering\<close>

lemma toFixed5_nearby: "toFixed5 (100000101 / 1000001) = toFixed5 100"
proof -
  have "\<lfloor>(100000101 / 1000001 :: rat) * 100000 + 1 / 2\<rfloor> = 10000000"
    by (simp add: floor_eq_iff)
  moreover have "\<lfloor>(100 :: rat) * 100000 + 1 / 2\<rfloor> = 10000000"
    by (simp add: floor_eq_iff)
  ultimately show ?thesis
    unfolding toFixed5_def by simp
qed

subsection \<open>The status guard of the receipt\<close>

text \<open>\<open>OrderNotReceivable\<close> is raised by the guard of line 1155 and by nothing else.\<close>

lemma receiveItems_error:
  "receiveItems rel tx its = Inl e \<Longrightarrow> e = ReadAfterWrite \<or> (\<exists>k. e = ProductNotFound k)"
proof (induction its arbitrary: tx)
  case Nil
  then show ?case by simp
next
  case (Cons item rest)
  then show ?case
    by (auto simp add: tx_get_def Let_def split: if_splits option.splits)
qed

lemma apply_mutation_error: "apply_mutation m d = Inl e \<Longrightarrow> e = DocumentNotFound"
  by (cases m) (auto split: option.splits)

lemma commit_error: "commit ms d = Inl e \<Longrightarrow> e = DocumentNotFound"
proof (induction ms arbitrary: d)
  case Nil
  then show ?case by simp
next
  case (Cons m ms)
  then show ?case
    by (auto split: sum.splits dest: apply_mutation_error)
qed

lemma handleReceiveItems_guard:
  "handleReceiveItems d oid ord = (Failed OrderNotReceivable, d') \<longleftrightarrow>
     d' = d \<and> (case purchaseOrders d oid of None \<Rightarrow> True | Some doc \<Rightarrow> status doc = ''Received'')"
  by (auto simp add: handleReceiveItems_def runTransaction_def tx_get_def
        simp del: receiveItems.simps
        split: option.splits sum.splits dest: receiveItems_error commit_error)

subsection \<open>Shipments that exceed the stock\<close>

lemma ship_short_first:
  assumes "items ord = item # rest" "products d (productId item) = Some p"
    "stock p < quantity item"
  shows "handleShipOrder True d oid ord = (Failed (InsufficientStock (item_name item)), d)"
  using assms by (simp add: handleShipOrder_def runTransaction_def tx_get_def)

lemma ship_short_fails:
  assumes "item \<in> set (items ord)" "products d (productId item) = Some p"
    "stock p < quantity item"
  shows "\<exists>e. handleShipOrder True d oid ord = (Failed e, d)"
proof -
  obtain r d' where res: "handleShipOrder True d oid ord = (r, d')"
    by (cases "handleShipOrder True d oid ord")
  have "r \<noteq> Succeeded"
  proof
    assume "r = Succeeded"
    with res have ok: "handleShipOrder True d oid ord = (Succeeded, d')" by simp
    then show False
    proof (cases rule: handleShipOrder_Succeeded_cases)
      case (empty orderDoc)
      with assms(1) show False by simp
    next
      case (one orderDoc it p0)
      with assms show False by simp
    qed
  qed
  moreover have "r \<noteq> Cancelled"
    using res by (auto simp add: handleShipOrder_def runTransaction_def split: sum.splits)
  ultimately obtain e where "r = Failed e"
    by (cases r) auto
  moreover from res \<open>r \<noteq> Succeeded\<close> have "d' = d"
    by (rule handleShipOrder_unchanged)
  ultimately show ?thesis using res by simp
qed

subsection \<open>Repeated receipts\<close>

lemma receive_twice_rejected:
  assumes "handleReceiveItems d oid ord = (Succeeded, d')"
  shows "handleReceiveItems d' oid ord' = (Failed OrderNotReceivable, d')"
proof -
  from assms have "\<exists>doc. purchaseOrders d' oid = Some doc \<and> status doc = ''Received''"
  proof (cases rule: handleReceiveItems_Succeeded_cases)
    case (empty orderDoc)
    with assms handleReceiveItems_empty [OF empty] show ?thesis by auto
  next
    case (one orderDoc item p)
    with assms handleReceiveItems_one [OF one] show ?thesis by auto
  qed
  then show ?thesis
    by (auto simp add: handleReceiveItems_guard)
qed

subsection \<open>The weighted average over receipts of one line each\<close>

lemma receipts_totals:
  assumes "receipts d k rs d'" "products d k = Some p" "0 \<le> stock p" "\<forall>(q, c)\<in>set rs. 0 < q"
  shows "\<exists>p'. products d' k = Some p' \<and>
           stock p' = stock p + (\<Sum>(q, c)\<leftarrow>rs. q) \<and>
           of_int (stock p') * averageCost p' =
             of_int (stock p) * averageCost p + (\<Sum>(q, c)\<leftarrow>rs. of_int q * c)"
  using assms
proof (induction arbitrary: p rule: receipts.induct)
  case (none d k)
  then show ?case by simp
next
  case (more d oid ord d1 item k rs d')
  from more.hyps(1) obtain doc p0 where
    pre: "items ord = [item]" "purchaseOrders d oid = Some doc" "status doc \<noteq> ''Received''"
         "products d (productId item) = Some p0"
    using more.hyps(2) by (cases rule: handleReceiveItems_Succeeded_cases) auto
  with more.hyps(3) more.prems(1) have p0: "p0 = p" by simp
  let ?q = "quantity item" and ?c = "item_cost item"
  let ?p1 = "p\<lparr>stock := stock p + ?q,
               averageCost := receiptAvgCost (stock p) (averageCost p) ?q ?c, cost := ?c\<rparr>"
  from more.prems(3) have q: "0 < ?q" by simp
  from more.hyps(1) have "d1 = snd (handleReceiveItems d oid ord)" by simp
  then have p1: "products d1 k = Some ?p1"
    using handleReceiveItems_one [OF pre] more.hyps(3) p0 by simp
  from q more.prems(2) have pos: "0 < stock p + ?q" by simp
  then have nz: "(of_int (stock p + ?q) :: rat) \<noteq> 0" by simp
  have avg: "of_int (stock ?p1) * averageCost ?p1 = of_int (stock p) * averageCost p + of_int ?q * ?c"
    using pos nz by (simp add: receiptAvgCost_def)
  from pos have "0 \<le> stock ?p1" by simp
  moreover from more.prems(3) have "\<forall>(q, c)\<in>set rs. 0 < q" by simp
  ultimately obtain p' where
    p': "products d' k = Some p'" "stock p' = stock ?p1 + (\<Sum>(q, c)\<leftarrow>rs. q)"
        "of_int (stock p') * averageCost p' =
           of_int (stock ?p1) * averageCost ?p1 + (\<Sum>(q, c)\<leftarrow>rs. of_int q * c)"
    using more.IH [OF p1] by blast
  from p'(2) have "stock p' = stock p + (\<Sum>(q, c)\<leftarrow>(?q, ?c) # rs. q)"
    by simp
  moreover from p'(3) avg have "of_int (stock p') * averageCost p' =
      of_int (stock p) * averageCost p + (\<Sum>(q, c)\<leftarrow>(?q, ?c) # rs. of_int q * c)"
    by simp
  ultimately show ?case using p'(1) by blast
qed

lemma positive_total: "rs \<noteq> [] \<Longrightarrow> \<forall>(q, c)\<in>set rs. 0 < q \<Longrightarrow> 0 < (\<Sum>(q, c)\<leftarrow>rs. q :: int)"
proof (induction rs)
  case Nil
  then show ?case by simp
next
  case (Cons a rs)
  then show ?case
    by (cases a; cases "rs = []") (auto simp add: add_pos_pos)
qed

lemma receipts_weighted_average:
  assumes "receipts d k rs d'" "products d k = Some p" "stock p = 0" "rs \<noteq> []"
    "\<forall>(q, c)\<in>set rs. 0 < q"
  shows "\<exists>p'. products d' k = Some p' \<and>
           averageCost p' = (\<Sum>(q, c)\<leftarrow>rs. of_int q * c) / of_int (\<Sum>(q, c)\<leftarrow>rs. q)"
proof -
  from assms(3) have "0 \<le> stock p" by simp
  with assms obtain p' where
    p': "products d' k = Some p'" "stock p' = stock p + (\<Sum>(q, c)\<leftarrow>rs. q)"
        "of_int (stock p') * averageCost p' =
           of_int (stock p) * averageCost p + (\<Sum>(q, c)\<leftarrow>rs. of_int q * c)"
    using receipts_totals by blast
  from assms(4,5) have "0 < (\<Sum>(q, c)\<leftarrow>rs. q :: int)" by (rule positive_total)
  with p'(2) assms(3) have "(of_int (stock p') :: rat) \<noteq> 0" by simp
  with p'(3) assms(3) have "averageCost p' = (\<Sum>(q, c)\<leftarrow>rs. of_int q * c) / of_int (stock p')"
    by (simp add: field_simps)
  with p'(1,2) assms(3) show ?thesis by simp
qed

subsection \<open>The statuses of the stored purchase orders\<close>

lemma handleReceiveItems_purchaseOrders:
  assumes "handleReceiveItems d oid ord = (r, d')" "purchaseOrders d' k = Some doc'"
  shows "(\<exists>doc. purchaseOrders d k = Some doc \<and> status doc' = status doc) \<or> status doc' = ''Received''"
proof (cases "r = Succeeded")
  case False
  with assms(1) have "d' = d" by (rule handleReceiveItems_unchanged)
  with assms(2) show ?thesis by simp
next
  case True
  with assms(1) have ok: "handleReceiveItems d oid ord = (Succeeded, d')" by simp
  then show ?thesis
  proof (cases rule: handleReceiveItems_Succeeded_cases)
    case (empty orderDoc)
    with ok handleReceiveItems_empty [OF empty] assms(2) show ?thesis
      by (auto split: if_splits)
  next
    case (one orderDoc item p)
    with ok handleReceiveItems_one [OF one] assms(2) show ?thesis
      by (auto split: if_splits)
  qed
qed

lemma handleShipOrder_purchaseOrders:
  assumes "handleShipOrder c d oid ord = (r, d')"
  shows "purchaseOrders d' = purchaseOrders d"
proof (cases "r = Succeeded")
  case False
  with assms have "d' = d" by (rule handleShipOrder_unchanged)
  then show ?thesis by simp
next
  case True
  with assms have ok: "handleShipOrder c d oid ord = (Succeeded, d')" by simp
  then show ?thesis
  proof (cases rule: handleShipOrder_Succeeded_cases)
    case (empty orderDoc)
    with ok handleShipOrder_empty [OF empty(2,3)] show ?thesis by auto
  next
    case (one orderDoc item p)
    with ok handleShipOrder_one [OF one(2-5)] show ?thesis by auto
  qed
qed

lemma purchase_states_status:
  "purchase_states d \<Longrightarrow> purchaseOrders d k = Some doc \<Longrightarrow>
     status doc = ''Pending'' \<or> status doc = ''Received''"
proof (induction arbitrary: k doc rule: purchase_states.induct)
  case (start d)
  then show ?case by simp
next
  case (create d newId now party itms)
  then show ?case
    by (auto simp add: handleAddOrder_def split: if_splits)
next
  case (receipt d oid ord r d')
  from handleReceiveItems_purchaseOrders [OF receipt.hyps(2) receipt.prems]
  consider old where "purchaseOrders d k = Some old" "status doc = status old"
    | "status doc = ''Received''"
    by blast
  then show ?case
  proof cases
    case 1
    from receipt.IH [OF 1(1)] 1(2) show ?thesis by simp
  next
    case 2
    then show ?thesis by simp
  qed
next
  case (shipment d c oid ord r d')
  from handleShipOrder_purchaseOrders [OF shipment.hyps(2)] shipment.prems
  have "purchaseOrders d k = Some doc" by simp
  then show ?case by (rule shipment.IH)
next
  case (others d ps sos)
  then show ?case by simp
qed

section \<open>The claims\<close>

text \<open>
  C1. Every receipt of a line item that is applied to a product sets the new
  stock to the old stock plus the quantity of the line item, and the new
  average cost to (old stock * old average cost + quantity * unit cost) / new
  stock when the new stock is positive, and to the unit cost otherwise. In
  particular, from stock 0 and average cost 0, receiving 10 units at 100 and
  then 5 units at 130 gives stock 15 and average cost 110, and shipping 12
  units then gives stock 3, the average cost still 110, and the shipped line
  item stamped with \<open>costAtSale\<close> 110.
\<close>

theorem receipt_moving_average:
  "(\<forall>d oid ord d' item.
      handleReceiveItems d oid ord = (Succeeded, d') \<longrightarrow> item \<in> set (items ord) \<longrightarrow>
      (\<exists>p p'. products d (productId item) = Some p \<and> products d' (productId item) = Some p' \<and>
         stock p' = stock p + quantity item \<and>
         averageCost p' =
           (if stock p' > 0
            then (of_int (stock p) * averageCost p + of_int (quantity item) * item_cost item)
                   / of_int (stock p')
            else item_cost item)))
   \<and>
   (case handleReceiveItems scenario_db ''po1'' (order_doc ''PO-1'' ''Pending'' [line ''P'' 10 100]) of
     (r1, d1) \<Rightarrow>
    case handleReceiveItems d1 ''po2'' (order_doc ''PO-2'' ''Pending'' [line ''P'' 5 130]) of
     (r2, d2) \<Rightarrow>
    case handleShipOrder True d2 ''so1'' (order_doc ''SO-1'' ''Pending Shipment'' [line ''P'' 12 0]) of
     (r3, d3) \<Rightarrow>
       r1 = Succeeded \<and> map_option (\<lambda>p. (stock p, averageCost p)) (products d1 ''P'') = Some (10, 100) \<and>
       r2 = Succeeded \<and> map_option (\<lambda>p. (stock p, averageCost p)) (products d2 ''P'') = Some (15, 110) \<and>
       r3 = Succeeded \<and> map_option (\<lambda>p. (stock p, averageCost p)) (products d3 ''P'') = Some (3, 110) \<and>
       map_option (\<lambda>doc. map costAtSale (items doc)) (salesOrders d3 ''so1'') = Some [Some 110])"
proof (intro conjI allI impI)
  fix d oid ord d' item
  assume ok: "handleReceiveItems d oid ord = (Succeeded, d')" and mem: "item \<in> set (items ord)"
  from ok show "\<exists>p p'. products d (productId item) = Some p \<and> products d' (productId item) = Some p' \<and>
         stock p' = stock p + quantity item \<and>
         averageCost p' =
           (if stock p' > 0
            then (of_int (stock p) * averageCost p + of_int (quantity item) * item_cost item)
                   / of_int (stock p')
            else item_cost item)"
  proof (cases rule: handleReceiveItems_Succeeded_cases)
    case (empty orderDoc)
    with mem show ?thesis by simp
  next
    case (one orderDoc it p)
    with mem have "item = it" by simp
    with one ok handleReceiveItems_one [OF one(1-4)] show ?thesis
      by (auto simp add: receiptAvgCost_def)
  qed
next
  show "case handleReceiveItems scenario_db ''po1'' (order_doc ''PO-1'' ''Pending'' [line ''P'' 10 100]) of
     (r1, d1) \<Rightarrow>
    case handleReceiveItems d1 ''po2'' (order_doc ''PO-2'' ''Pending'' [line ''P'' 5 130]) of
     (r2, d2) \<Rightarrow>
    case handleShipOrder True d2 ''so1'' (order_doc ''SO-1'' ''Pending Shipment'' [line ''P'' 12 0]) of
     (r3, d3) \<Rightarrow>
       r1 = Succeeded \<and> map_option (\<lambda>p. (stock p, averageCost p)) (products d1 ''P'') = Some (10, 100) \<and>
       r2 = Succeeded \<and> map_option (\<lambda>p. (stock p, averageCost p)) (products d2 ''P'') = Some (15, 110) \<and>
       r3 = Succeeded \<and> map_option (\<lambda>p. (stock p, averageCost p)) (products d3 ''P'') = Some (3, 110) \<and>
       map_option (\<lambda>doc. map costAtSale (items doc)) (salesOrders d3 ''so1'') = Some [Some 110]"
    by (simp add: handler_defs scenario_db_def example_defs)
qed

text \<open>The general part at the second receipt of the scenario: 10 units at 100 in stock, 5 received at 130.\<close>

theorem receipt_moving_average_witness:
  "handleReceiveItems (db_of [(''P'', product_doc 10 100)] [(''po2'', order_doc ''PO-2'' ''Pending'' [line ''P'' 5 130])] [])
      ''po2'' (order_doc ''PO-2'' ''Pending'' [line ''P'' 5 130])
     = (Succeeded, snd (handleReceiveItems (db_of [(''P'', product_doc 10 100)] [(''po2'', order_doc ''PO-2'' ''Pending'' [line ''P'' 5 130])] [])
      ''po2'' (order_doc ''PO-2'' ''Pending'' [line ''P'' 5 130])))
   \<and> line ''P'' 5 130 \<in> set (items (order_doc ''PO-2'' ''Pending'' [line ''P'' 5 130]))
   \<and> (\<exists>p'. products (snd (handleReceiveItems (db_of [(''P'', product_doc 10 100)] [(''po2'', order_doc ''PO-2'' ''Pending'' [line ''P'' 5 130])] [])
      ''po2'' (order_doc ''PO-2'' ''Pending'' [line ''P'' 5 130]))) ''P'' = Some p' \<and> stock p' = 15 \<and> averageCost p' = 110)"
proof -
  let ?d = "db_of [(''P'', product_doc 10 100)] [(''po2'', order_doc ''PO-2'' ''Pending'' [line ''P'' 5 130])] []"
  let ?o = "order_doc ''PO-2'' ''Pending'' [line ''P'' 5 130]"
  have ok: "handleReceiveItems ?d ''po2'' ?o = (Succeeded, snd (handleReceiveItems ?d ''po2'' ?o))"
    by (simp add: handler_defs example_defs)
  have mem: "line ''P'' 5 130 \<in> set (items ?o)"
    by (simp add: order_doc_def)
  from receipt_moving_average [THEN conjunct1, rule_format, OF ok mem]
  obtain p p' where "products ?d (productId (line ''P'' 5 130)) = Some p"
    "products (snd (handleReceiveItems ?d ''po2'' ?o)) (productId (line ''P'' 5 130)) = Some p'"
    "stock p' = stock p + quantity (line ''P'' 5 130)"
    "averageCost p' = (if stock p' > 0
            then (of_int (stock p) * averageCost p + of_int (quantity (line ''P'' 5 130)) * item_cost (line ''P'' 5 130))
                   / of_int (stock p')
            else item_cost (line ''P'' 5 130))"
    by blast
  then have "products (snd (handleReceiveItems ?d ''po2'' ?o)) ''P'' = Some p' \<and> stock p' = 15 \<and> averageCost p' = 110"
    by (auto simp add: example_defs)
  with ok mem show ?thesis by blast
qed

text \<open>
  C5. In every state reached from freshly created products (stock 0, no log
  entries) by successful receipts and shipments, the sum of the \<open>change\<close>
  fields of the inventory log entries of a product equals its current stock.
  A receipt logs \<open>change = +quantity\<close> and a shipment \<open>change = -quantity\<close>
  for the product of each line item, each with the resulting stock in
  \<open>newStock\<close>.
\<close>

theorem ledger_reconstructs_stock:
  "(reachable d \<longrightarrow> products d k = Some p \<longrightarrow> sum_change k (inventoryLogs d) = stock p) \<and>
   (handleReceiveItems d1 oid ord = (Succeeded, d1') \<longrightarrow>
      (\<exists>logs. inventoryLogs d1' = inventoryLogs d1 @ logs \<and>
         map (\<lambda>l. (inv_productId l, change l)) logs
           = map (\<lambda>item. (productId item, quantity item)) (items ord) \<and>
         (\<forall>l\<in>set logs. map_option stock (products d1' (inv_productId l)) = Some (newStock l)))) \<and>
   (handleShipOrder c d2 sid sord = (Succeeded, d2') \<longrightarrow>
      (\<exists>logs. inventoryLogs d2' = inventoryLogs d2 @ logs \<and>
         map (\<lambda>l. (inv_productId l, change l)) logs
           = map (\<lambda>item. (productId item, - quantity item)) (items sord) \<and>
         (\<forall>l\<in>set logs. map_option stock (products d2' (inv_productId l)) = Some (newStock l))))"
proof (intro conjI impI)
  assume "reachable d" and "products d k = Some p"
  then show "sum_change k (inventoryLogs d) = stock p"
    using reachable_ledger by blast
next
  assume "handleReceiveItems d1 oid ord = (Succeeded, d1')"
  then show "\<exists>logs. inventoryLogs d1' = inventoryLogs d1 @ logs \<and>
         map (\<lambda>l. (inv_productId l, change l)) logs
           = map (\<lambda>item. (productId item, quantity item)) (items ord) \<and>
         (\<forall>l\<in>set logs. map_option stock (products d1' (inv_productId l)) = Some (newStock l))"
    by (rule receive_log_entries)
next
  assume "handleShipOrder c d2 sid sord = (Succeeded, d2')"
  then show "\<exists>logs. inventoryLogs d2' = inventoryLogs d2 @ logs \<and>
         map (\<lambda>l. (inv_productId l, change l)) logs
           = map (\<lambda>item. (productId item, - quantity item)) (items sord) \<and>
         (\<forall>l\<in>set logs. map_option stock (products d2' (inv_productId l)) = Some (newStock l))"
    by (rule ship_log_entries)
qed

text \<open>The scenario after its first receipt, and a shipment of 4 units from there.\<close>

theorem ledger_reconstructs_stock_witness:
  "\<exists>dA pA dB.
     handleReceiveItems scenario_db ''po1'' (order_doc ''PO-1'' ''Pending'' [line ''P'' 10 100]) = (Succeeded, dA) \<and>
     reachable dA \<and> products dA ''P'' = Some pA \<and> stock pA = 10 \<and>
     sum_change ''P'' (inventoryLogs dA) = stock pA \<and>
     handleShipOrder True dA ''so1'' (order_doc ''SO-1'' ''Pending Shipment'' [line ''P'' 4 0]) = (Succeeded, dB) \<and>
     map (\<lambda>l. (inv_productId l, change l)) (inventoryLogs dA) = [(''P'', 10)] \<and>
     map (\<lambda>l. (inv_productId l, change l)) (inventoryLogs dB) = [(''P'', 10), (''P'', - 4)]"
proof -
  let ?po = "order_doc ''PO-1'' ''Pending'' [line ''P'' 10 100]"
  let ?so = "order_doc ''SO-1'' ''Pending Shipment'' [line ''P'' 4 0]"
  define dA where "dA = snd (handleReceiveItems scenario_db ''po1'' ?po)"
  define pA where "pA = (product_doc 10 100)\<lparr>cost := 100\<rparr>"
  define dB where "dB = snd (handleShipOrder True dA ''so1'' ?so)"
  have r1: "handleReceiveItems scenario_db ''po1'' ?po = (Succeeded, dA)"
    by (simp add: dA_def handler_defs scenario_db_def example_defs)
  have pA: "products dA ''P'' = Some pA"
    by (simp add: dA_def pA_def handler_defs scenario_db_def example_defs)
  have r2: "handleShipOrder True dA ''so1'' ?so = (Succeeded, dB)"
    by (simp add: dB_def dA_def handler_defs scenario_db_def example_defs)
  have "reachable scenario_db"
    by (rule reachable.fresh) (simp_all add: scenario_db_def example_defs)
  then have reach: "reachable dA"
    using r1 by (rule reachable.receive)
  note inst = ledger_reconstructs_stock [of dA "''P''" pA scenario_db "''po1''" ?po dA True dA "''so1''" ?so dB]
  from inst reach pA have sum: "sum_change ''P'' (inventoryLogs dA) = stock pA" by blast
  from inst r1 obtain logsA where
    la: "inventoryLogs dA = inventoryLogs scenario_db @ logsA"
        "map (\<lambda>l. (inv_productId l, change l)) logsA = map (\<lambda>item. (productId item, quantity item)) (items ?po)"
    by blast
  from inst r2 obtain logsB where
    lb: "inventoryLogs dB = inventoryLogs dA @ logsB"
        "map (\<lambda>l. (inv_productId l, change l)) logsB = map (\<lambda>item. (productId item, - quantity item)) (items ?so)"
    by blast
  from la have ea: "map (\<lambda>l. (inv_productId l, change l)) (inventoryLogs dA) = [(''P'', 10)]"
    by (simp add: scenario_db_def example_defs)
  with lb have eb: "map (\<lambda>l. (inv_productId l, change l)) (inventoryLogs dB) = [(''P'', 10), (''P'', - 4)]"
    by (simp add: scenario_db_def example_defs)
  have st: "stock pA = 10" by (simp add: pA_def product_doc_def)
  show ?thesis
    by (rule exI [of _ dA], rule exI [of _ pA], rule exI [of _ dB])
       (intro conjI r1 reach pA st sum r2 ea eb)
qed

text \<open>
  C7. A successful shipment changes, for each shipped product, only the
  stock field, to the old stock minus the quantity of the line item; the
  average cost and every other field of the product, and every other
  product, are as before. Each shipped line item is stored with
  \<open>costAtSale\<close> equal to the average cost of its product at the moment of
  the shipment.
\<close>

theorem shipment_changes_stock_only:
  assumes ok: "handleShipOrder c d oid ord = (Succeeded, d')"
  shows "(\<forall>item\<in>set (items ord). \<exists>p. products d (productId item) = Some p \<and>
            products d' (productId item) = Some (p\<lparr>stock := stock p - quantity item\<rparr>)) \<and>
         (\<forall>k. k \<notin> productId ` set (items ord) \<longrightarrow> products d' k = products d k) \<and>
         (\<exists>doc. salesOrders d' oid = Some doc \<and>
            items doc = map (\<lambda>item. item\<lparr>costAtSale :=
                               map_option averageCost (products d (productId item))\<rparr>) (items ord))"
  using ok
proof (cases rule: handleShipOrder_Succeeded_cases)
  case (empty orderDoc)
  with ok handleShipOrder_empty [OF empty(2,3)] show ?thesis by auto
next
  case (one orderDoc item p)
  with ok handleShipOrder_one [OF one(2-5)] show ?thesis by auto
qed

text \<open>Shipping 12 of the 15 units held at an average cost of 110.\<close>

theorem shipment_changes_stock_only_witness:
  "\<exists>d'. handleShipOrder True
          (db_of [(''P'', product_doc 15 110)] []
             [(''so1'', order_doc ''SO-1'' ''Pending Shipment'' [line ''P'' 12 0])])
          ''so1'' (order_doc ''SO-1'' ''Pending Shipment'' [line ''P'' 12 0]) = (Succeeded, d') \<and>
        products d' ''P'' = Some ((product_doc 15 110)\<lparr>stock := 3\<rparr>) \<and>
        products d' ''Q'' = None \<and>
        map_option items (salesOrders d' ''so1'') = Some [(line ''P'' 12 0)\<lparr>costAtSale := Some 110\<rparr>]"
proof -
  let ?d = "db_of [(''P'', product_doc 15 110)] []
             [(''so1'', order_doc ''SO-1'' ''Pending Shipment'' [line ''P'' 12 0])]"
  let ?o = "order_doc ''SO-1'' ''Pending Shipment'' [line ''P'' 12 0]"
  define d' where "d' = snd (handleShipOrder True ?d ''so1'' ?o)"
  have ok: "handleShipOrder True ?d ''so1'' ?o = (Succeeded, d')"
    by (simp add: d'_def handler_defs example_defs)
  note inst = shipment_changes_stock_only [OF ok]
  from inst have "\<exists>p. products ?d (productId (line ''P'' 12 0)) = Some p \<and>
      products d' (productId (line ''P'' 12 0)) = Some (p\<lparr>stock := stock p - quantity (line ''P'' 12 0)\<rparr>)"
    by (simp add: order_doc_def)
  then have a: "products d' ''P'' = Some ((product_doc 15 110)\<lparr>stock := 3\<rparr>)"
    by (auto simp add: example_defs)
  from inst have "products d' ''Q'' = products ?d ''Q''"
    by (simp add: example_defs)
  then have b: "products d' ''Q'' = None"
    by (simp add: example_defs)
  from inst have e: "map_option items (salesOrders d' ''so1'') = Some [(line ''P'' 12 0)\<lparr>costAtSale := Some 110\<rparr>]"
    by (auto simp add: example_defs)
  show ?thesis
    by (rule exI [of _ d']) (intro conjI ok a b e)
qed

text \<open>
  C8, as stated, fails: with 1000000 units in stock at an average cost of 100,
  receiving one unit at 101 changes the average cost to 100000101 / 1000001,
  and no cost log entry is written, since both values render as 100.00000.
\<close>

theorem cost_log_exact_counterexample:
  "fst (handleReceiveItems bulk_db ''po1'' (order_doc ''PO-1'' ''Pending'' [line ''P'' 1 101]))
     = Succeeded \<and>
   map_option averageCost (products bulk_db ''P'') = Some 100 \<and>
   map_option averageCost
     (products (snd (handleReceiveItems bulk_db ''po1''
                       (order_doc ''PO-1'' ''Pending'' [line ''P'' 1 101]))) ''P'')
     = Some (100000101 / 1000001) \<and>
   (100000101 / 1000001 :: rat) \<noteq> 100 \<and>
   costLogs (snd (handleReceiveItems bulk_db ''po1''
                    (order_doc ''PO-1'' ''Pending'' [line ''P'' 1 101])))
     = costLogs bulk_db"
proof -
  have avg: "receiptAvgCost 1000000 100 1 101 = 100000101 / 1000001"
    by (simp add: receiptAvgCost_def)
  have "handleReceiveItems bulk_db ''po1'' (order_doc ''PO-1'' ''Pending'' [line ''P'' 1 101]) =
        (Succeeded,
         bulk_db
           \<lparr>products := [''P'' \<mapsto> (product_doc 1000000 100)
                \<lparr>stock := 1000001, averageCost := 100000101 / 1000001, cost := 101\<rparr>],
            purchaseOrders := [''po1'' \<mapsto> order_doc ''PO-1'' ''Received'' [line ''P'' 1 101]],
            inventoryLogs := [\<lparr>inv_productId = ''P'', inv_productName = ''widget'',
               inv_type = ''in'', change = 1, newStock = 1000001, inv_relatedDoc = ''PO-1''\<rparr>]\<rparr>)"
    by (subst handleReceiveItems_one
          [where item = "line ''P'' 1 101" and p = "product_doc 1000000 100"
             and orderDoc = "order_doc ''PO-1'' ''Pending'' [line ''P'' 1 101]"])
       (simp_all add: bulk_db_def example_defs avg toFixed5_nearby)
  then show ?thesis by (simp add: bulk_db_def example_defs)
qed

text \<open>
  C8, amended. A cost log entry is appended only by a receipt, never by a
  shipment; and for a received line item it is appended exactly when the old
  and the new average cost differ in their rendering with five decimals
  (\<open>toFixed(5)\<close>), that is, after rounding to five decimal places. When
  the two renderings are equal, no entry is written.
\<close>

theorem cost_log_rounded:
  "(handleShipOrder c d sid sord = (r, d1) \<longrightarrow> costLogs d1 = costLogs d) \<and>
   (handleReceiveItems d oid ord = (Succeeded, d2) \<longrightarrow>
      (items ord = [] \<longrightarrow> costLogs d2 = costLogs d) \<and>
      (\<forall>item\<in>set (items ord). \<exists>p p'.
          products d (productId item) = Some p \<and> products d2 (productId item) = Some p' \<and>
          costLogs d2 = costLogs d @
            (if toFixed5 (averageCost p) \<noteq> toFixed5 (averageCost p')
             then [\<lparr>cl_productId = productId item, cl_productName = item_name item,
                     cl_type = ''in'', cl_relatedDoc = orderNumber ord,
                     oldAvgCost = averageCost p, newAvgCost = averageCost p'\<rparr>]
             else [])))"
proof (intro conjI impI)
  assume run: "handleShipOrder c d sid sord = (r, d1)"
  show "costLogs d1 = costLogs d"
  proof (cases "r = Succeeded")
    case False
    with run show ?thesis by (auto dest: handleShipOrder_unchanged)
  next
    case True
    with run have ok: "handleShipOrder c d sid sord = (Succeeded, d1)" by simp
    then show ?thesis
    proof (cases rule: handleShipOrder_Succeeded_cases)
      case (empty orderDoc)
      with ok handleShipOrder_empty [OF empty(2,3)] show ?thesis by auto
    next
      case (one orderDoc item p)
      with ok handleShipOrder_one [OF one(2-5)] show ?thesis by auto
    qed
  qed
next
  assume ok: "handleReceiveItems d oid ord = (Succeeded, d2)" and "items ord = []"
  from ok show "costLogs d2 = costLogs d"
  proof (cases rule: handleReceiveItems_Succeeded_cases)
    case (empty orderDoc)
    with ok handleReceiveItems_empty [OF empty] show ?thesis by auto
  next
    case (one orderDoc item p)
    with \<open>items ord = []\<close> show ?thesis by simp
  qed
next
  assume ok: "handleReceiveItems d oid ord = (Succeeded, d2)"
  from ok show "\<forall>item\<in>set (items ord). \<exists>p p'.
          products d (productId item) = Some p \<and> products d2 (productId item) = Some p' \<and>
          costLogs d2 = costLogs d @
            (if toFixed5 (averageCost p) \<noteq> toFixed5 (averageCost p')
             then [\<lparr>cl_productId = productId item, cl_productName = item_name item,
                     cl_type = ''in'', cl_relatedDoc = orderNumber ord,
                     oldAvgCost = averageCost p, newAvgCost = averageCost p'\<rparr>]
             else [])"
  proof (cases rule: handleReceiveItems_Succeeded_cases)
    case (empty orderDoc)
    then show ?thesis by simp
  next
    case (one orderDoc it p)
    let ?p' = "p\<lparr>stock := stock p + quantity it,
                 averageCost := receiptAvgCost (stock p) (averageCost p) (quantity it) (item_cost it),
                 cost := item_cost it\<rparr>"
    from ok have d2: "d2 = snd (handleReceiveItems d oid ord)"
      by simp
    have prods: "products d2 (productId it) = Some ?p'"
      unfolding d2 handleReceiveItems_one [OF one] by simp
    have logs: "costLogs d2 = costLogs d @
            (if toFixed5 (averageCost p) \<noteq> toFixed5 (averageCost ?p')
             then [\<lparr>cl_productId = productId it, cl_productName = item_name it,
                     cl_type = ''in'', cl_relatedDoc = orderNumber ord,
                     oldAvgCost = averageCost p, newAvgCost = averageCost ?p'\<rparr>]
             else [])"
      unfolding d2 handleReceiveItems_one [OF one] by simp
    show ?thesis
    proof
      fix item
      assume "item \<in> set (items ord)"
      with one have eq: "item = it" by simp
      show "\<exists>p p'.
          products d (productId item) = Some p \<and> products d2 (productId item) = Some p' \<and>
          costLogs d2 = costLogs d @
            (if toFixed5 (averageCost p) \<noteq> toFixed5 (averageCost p')
             then [\<lparr>cl_productId = productId item, cl_productName = item_name item,
                     cl_type = ''in'', cl_relatedDoc = orderNumber ord,
                     oldAvgCost = averageCost p, newAvgCost = averageCost p'\<rparr>]
             else [])"
        unfolding eq
        by (rule exI [of _ p], rule exI [of _ "?p'"]) (intro conjI one(4) prods logs)
    qed
  qed
qed


text \<open>
  On the scenario: the shipment of 12 units is refused and writes nothing;
  the first receipt moves the average cost from 0 to 100 and logs it.
\<close>

theorem cost_log_rounded_witness:
  "\<exists>r d1 d2.
     handleShipOrder True scenario_db ''so1'' (order_doc ''SO-1'' ''Pending Shipment'' [line ''P'' 12 0]) = (r, d1) \<and>
     costLogs d1 = [] \<and>
     handleReceiveItems scenario_db ''po1'' (order_doc ''PO-1'' ''Pending'' [line ''P'' 10 100]) = (Succeeded, d2) \<and>
     costLogs d2 = [\<lparr>cl_productId = ''P'', cl_productName = ''widget'', cl_type = ''in'',
                      cl_relatedDoc = ''PO-1'', oldAvgCost = 0, newAvgCost = 100\<rparr>]"
proof -
  let ?so = "order_doc ''SO-1'' ''Pending Shipment'' [line ''P'' 12 0]"
  let ?po = "order_doc ''PO-1'' ''Pending'' [line ''P'' 10 100]"
  define r where "r = fst (handleShipOrder True scenario_db ''so1'' ?so)"
  define d1 where "d1 = snd (handleShipOrder True scenario_db ''so1'' ?so)"
  define d2 where "d2 = snd (handleReceiveItems scenario_db ''po1'' ?po)"
  have ship: "handleShipOrder True scenario_db ''so1'' ?so = (r, d1)"
    by (simp add: r_def d1_def)
  have rcv: "handleReceiveItems scenario_db ''po1'' ?po = (Succeeded, d2)"
    by (simp add: d2_def handler_defs scenario_db_def example_defs)
  note inst = cost_log_rounded [of True scenario_db "''so1''" ?so r d1 "''po1''" ?po d2]
  from inst ship have "costLogs d1 = costLogs scenario_db" by blast
  then have a: "costLogs d1 = []" by (simp add: scenario_db_def example_defs)
  have mem: "line ''P'' 10 100 \<in> set (items ?po)" by (simp add: order_doc_def)
  from inst rcv mem obtain p p' where
    p: "products scenario_db (productId (line ''P'' 10 100)) = Some p" and
    p': "products d2 (productId (line ''P'' 10 100)) = Some p'" and
    logs: "costLogs d2 = costLogs scenario_db @
            (if toFixed5 (averageCost p) \<noteq> toFixed5 (averageCost p')
             then [\<lparr>cl_productId = productId (line ''P'' 10 100),
                     cl_productName = item_name (line ''P'' 10 100),
                     cl_type = ''in'', cl_relatedDoc = orderNumber ?po,
                     oldAvgCost = averageCost p, newAvgCost = averageCost p'\<rparr>]
             else [])"
    by blast
  from p have old: "averageCost p = 0" by (auto simp add: scenario_db_def example_defs)
  have "products d2 ''P'' = Some ((product_doc 0 0)\<lparr>stock := 10, averageCost := 100, cost := 100\<rparr>)"
    by (simp add: d2_def handler_defs scenario_db_def example_defs)
  with p' have new: "averageCost p' = 100" by (auto simp add: line_def)
  have "\<lfloor>(0 :: rat) * 100000 + 1 / 2\<rfloor> = 0" by (simp add: floor_eq_iff)
  moreover have "\<lfloor>(100 :: rat) * 100000 + 1 / 2\<rfloor> = 10000000" by (simp add: floor_eq_iff)
  ultimately have "toFixed5 0 \<noteq> toFixed5 100" unfolding toFixed5_def by simp
  with logs old new have b: "costLogs d2 = [\<lparr>cl_productId = ''P'', cl_productName = ''widget'', cl_type = ''in'',
                      cl_relatedDoc = ''PO-1'', oldAvgCost = 0, newAvgCost = 100\<rparr>]"
    by (simp add: scenario_db_def example_defs)
  show ?thesis
    by (rule exI [of _ r], rule exI [of _ d1], rule exI [of _ d2]) (intro conjI ship a rcv b)
qed

text \<open>
  C4. \<open>handleReceiveItems\<close> fails with \<open>OrderNotReceivable\<close>, and changes
  nothing, for every stored purchase order whose status is anything other
  than \<open>Pending\<close>; and \<open>Pending\<close> is receivable: a pending purchase order
  passes the guard, and one with a single line item for an existing product
  is received. The guard of line 1155 tests for \<open>Received\<close>, which is the
  only status other than \<open>Pending\<close> that a purchase order of the application
  ever has.
\<close>

theorem receive_only_pending:
  "(purchase_states d \<longrightarrow> purchaseOrders d oid = Some doc \<longrightarrow> status doc \<noteq> ''Pending'' \<longrightarrow>
      handleReceiveItems d oid ord = (Failed OrderNotReceivable, d)) \<and>
   (purchaseOrders d oid = Some doc \<longrightarrow> status doc = ''Pending'' \<longrightarrow>
      fst (handleReceiveItems d oid ord) \<noteq> Failed OrderNotReceivable) \<and>
   (purchaseOrders d oid = Some doc \<longrightarrow> status doc = ''Pending'' \<longrightarrow>
    items ord = [item] \<longrightarrow> products d (productId item) = Some p \<longrightarrow>
      fst (handleReceiveItems d oid ord) = Succeeded \<and>
      map_option status (purchaseOrders (snd (handleReceiveItems d oid ord)) oid)
        = Some ''Received'')"
proof (intro conjI impI)
  assume "purchase_states d" and doc: "purchaseOrders d oid = Some doc"
    and "status doc \<noteq> ''Pending''"
  then have "status doc = ''Received''"
    using purchase_states_status by blast
  with doc show "handleReceiveItems d oid ord = (Failed OrderNotReceivable, d)"
    by (simp add: handleReceiveItems_guard)
next
  assume doc: "purchaseOrders d oid = Some doc" and pending: "status doc = ''Pending''"
  obtain r d' where res: "handleReceiveItems d oid ord = (r, d')"
    by (cases "handleReceiveItems d oid ord")
  show "fst (handleReceiveItems d oid ord) \<noteq> Failed OrderNotReceivable"
  proof
    assume "fst (handleReceiveItems d oid ord) = Failed OrderNotReceivable"
    with res have "handleReceiveItems d oid ord = (Failed OrderNotReceivable, d')" by simp
    with doc pending show False
      by (simp add: handleReceiveItems_guard)
  qed
next
  assume doc: "purchaseOrders d oid = Some doc" and pending: "status doc = ''Pending''"
    and one: "items ord = [item]" and p: "products d (productId item) = Some p"
  from pending have nr: "status doc \<noteq> ''Received''" by simp
  show "fst (handleReceiveItems d oid ord) = Succeeded"
    by (simp add: handleReceiveItems_one [OF one doc nr p])
  show "map_option status (purchaseOrders (snd (handleReceiveItems d oid ord)) oid)
        = Some ''Received''"
    by (simp add: handleReceiveItems_one [OF one doc nr p])
qed

text \<open>
  A purchase order of three units is created for a shop that has none; it is
  pending and is received; a second receipt of the same order is refused.
\<close>

theorem receive_only_pending_witness:
  "\<exists>d1 d2 po.
     d1 = handleAddOrder (db_of [(''P'', product_doc 10 100)] [] []) ''po1'' ''1700000000000''
            ''supplier'' [line ''P'' 3 100] \<and>
     purchase_states d1 \<and> purchaseOrders d1 ''po1'' = Some po \<and> status po = ''Pending'' \<and>
     fst (handleReceiveItems d1 ''po1'' po) \<noteq> Failed OrderNotReceivable \<and>
     handleReceiveItems d1 ''po1'' po = (Succeeded, d2) \<and>
     purchase_states d2 \<and> map_option status (purchaseOrders d2 ''po1'') = Some ''Received'' \<and>
     handleReceiveItems d2 ''po1'' po = (Failed OrderNotReceivable, d2)"
proof -
  let ?d0 = "db_of [(''P'', product_doc 10 100)] [] []"
  define po where "po = \<lparr>partyName = ''supplier'', orderNumber = ''PO-1700000000000'',
     status = ''Pending'', items = [line ''P'' 3 100]\<rparr>"
  define d1 where "d1 = handleAddOrder ?d0 ''po1'' ''1700000000000'' ''supplier'' [line ''P'' 3 100]"
  define d2 where "d2 = snd (handleReceiveItems d1 ''po1'' po)"
  have s0: "purchase_states ?d0"
    by (rule purchase_states.start) (simp add: db_of_def)
  have "purchaseOrders ?d0 ''po1'' = None"
    by (simp add: db_of_def)
  with s0 have s1: "purchase_states d1"
    unfolding d1_def by (rule purchase_states.create)
  have stored: "purchaseOrders d1 ''po1'' = Some po"
    by (simp add: d1_def po_def handleAddOrder_def)
  have pending: "status po = ''Pending''"
    by (simp add: po_def)
  have single: "items po = [line ''P'' 3 100]"
    by (simp add: po_def)
  have prod: "products d1 (productId (line ''P'' 3 100)) = Some (product_doc 10 100)"
    by (simp add: d1_def handleAddOrder_def db_of_def line_def)
  note at1 = receive_only_pending [of d1 "''po1''" po po "line ''P'' 3 100" "product_doc 10 100"]
  from at1 stored pending have guard: "fst (handleReceiveItems d1 ''po1'' po) \<noteq> Failed OrderNotReceivable"
    by blast
  from at1 stored pending single prod have
    ok: "fst (handleReceiveItems d1 ''po1'' po) = Succeeded" and
    st: "map_option status (purchaseOrders (snd (handleReceiveItems d1 ''po1'' po)) ''po1'')
           = Some ''Received''"
    by blast+
  from ok have run: "handleReceiveItems d1 ''po1'' po = (Succeeded, d2)"
    unfolding d2_def by (cases "handleReceiveItems d1 ''po1'' po") simp
  with s1 have s2: "purchase_states d2"
    by (rule purchase_states.receipt)
  from st have st2: "map_option status (purchaseOrders d2 ''po1'') = Some ''Received''"
    by (simp add: d2_def)
  then obtain doc2 where doc2: "purchaseOrders d2 ''po1'' = Some doc2" "status doc2 = ''Received''"
    by auto
  then have "status doc2 \<noteq> ''Pending''" by simp
  with receive_only_pending [of d2 "''po1''" doc2 po] s2 doc2(1)
  have again: "handleReceiveItems d2 ''po1'' po = (Failed OrderNotReceivable, d2)"
    by blast
  show ?thesis
    by (rule exI [of _ d1], rule exI [of _ d2], rule exI [of _ po])
       (intro conjI d1_def s1 stored pending guard run s2 st2 again)
qed

text \<open>
  C9, as stated, fails: a purchase order with a line item of quantity -3 is
  received, and the stock goes from 10 to 7.
\<close>

theorem receive_invalid_quantity_counterexample:
  "quantity (line ''P'' (- 3) 100) \<le> 0 \<and>
   fst (handleReceiveItems negative_db ''po1''
          (order_doc ''PO-1'' ''Pending'' [line ''P'' (- 3) 100])) = Succeeded \<and>
   map_option stock (products negative_db ''P'') = Some 10 \<and>
   map_option stock
     (products (snd (handleReceiveItems negative_db ''po1''
                       (order_doc ''PO-1'' ''Pending'' [line ''P'' (- 3) 100]))) ''P'') = Some 7"
  by (simp add: handler_defs negative_db_def example_defs)

text \<open>
  C9, amended. \<open>handleReceiveItems\<close> has no check of the quantity and no
  \<open>InvalidQuantity\<close> failure: a line item is applied whatever its quantity
  is, the stock becoming the old stock plus the quantity. Quantities that are
  not strictly positive are excluded where the order is drafted:
  \<open>handleSubmit\<close> keeps only the line items with a quantity above zero.
\<close>

theorem quantity_checked_at_submission:
  "(handleSubmit party itms = Inr (party', finalItems) \<longrightarrow>
      (\<forall>item\<in>set finalItems. 0 < quantity item)) \<and>
   (items ord = [item] \<longrightarrow> purchaseOrders d oid = Some doc \<longrightarrow> status doc \<noteq> ''Received'' \<longrightarrow>
    products d (productId item) = Some p \<longrightarrow>
      fst (handleReceiveItems d oid ord) = Succeeded \<and>
      map_option stock (products (snd (handleReceiveItems d oid ord)) (productId item))
        = Some (stock p + quantity item))"
proof (intro conjI impI)
  assume "handleSubmit party itms = Inr (party', finalItems)"
  then have "finalItems = filter (\<lambda>item. productId item \<noteq> [] \<and> quantity item > 0) itms"
    by (auto simp add: handleSubmit_def Let_def split: if_splits)
  then show "\<forall>item\<in>set finalItems. 0 < quantity item"
    by simp
next
  assume a: "items ord = [item]" "purchaseOrders d oid = Some doc" "status doc \<noteq> ''Received''"
    "products d (productId item) = Some p"
  show "fst (handleReceiveItems d oid ord) = Succeeded"
    by (simp add: handleReceiveItems_one [OF a])
  show "map_option stock (products (snd (handleReceiveItems d oid ord)) (productId item))
        = Some (stock p + quantity item)"
    by (simp add: handleReceiveItems_one [OF a])
qed

text \<open>
  A draft with a line of quantity 0 and a line of quantity 2; and the
  receipt of the purchase order with the line of quantity -3.
\<close>

theorem quantity_checked_at_submission_witness:
  "handleSubmit ''supplier'' [line ''P'' 0 100, line ''P'' 2 100]
     = Inr (''supplier'', [line ''P'' 2 100]) \<and>
   0 < quantity (line ''P'' 2 100) \<and>
   fst (handleReceiveItems negative_db ''po1''
          (order_doc ''PO-1'' ''Pending'' [line ''P'' (- 3) 100])) = Succeeded \<and>
   map_option stock
     (products (snd (handleReceiveItems negative_db ''po1''
                       (order_doc ''PO-1'' ''Pending'' [line ''P'' (- 3) 100]))) ''P'')
     = Some (10 + - 3)"
proof -
  let ?o = "order_doc ''PO-1'' ''Pending'' [line ''P'' (- 3) 100]"
  have sub: "handleSubmit ''supplier'' [line ''P'' 0 100, line ''P'' 2 100]
     = Inr (''supplier'', [line ''P'' 2 100])"
    by (simp add: handleSubmit_def line_def)
  note inst = quantity_checked_at_submission
    [of "''supplier''" "[line ''P'' 0 100, line ''P'' 2 100]" "''supplier''" "[line ''P'' 2 100]"
        ?o "line ''P'' (- 3) 100" negative_db "''po1''" ?o "product_doc 10 100"]
  from inst sub have q: "0 < quantity (line ''P'' 2 100)"
    by simp
  have pre: "items ?o = [line ''P'' (- 3) 100]" "purchaseOrders negative_db ''po1'' = Some ?o"
    "status ?o \<noteq> ''Received''"
    "products negative_db (productId (line ''P'' (- 3) 100)) = Some (product_doc 10 100)"
    by (simp_all add: negative_db_def example_defs)
  from inst pre have
    "fst (handleReceiveItems negative_db ''po1'' ?o) = Succeeded \<and>
     map_option stock (products (snd (handleReceiveItems negative_db ''po1'' ?o))
        (productId (line ''P'' (- 3) 100)))
       = Some (stock (product_doc 10 100) + quantity (line ''P'' (- 3) 100))"
    by blast
  then have r: "fst (handleReceiveItems negative_db ''po1'' ?o) = Succeeded"
    "map_option stock (products (snd (handleReceiveItems negative_db ''po1'' ?o)) ''P'')
       = Some (10 + - 3)"
    by (simp_all add: line_def product_doc_def)
  from sub q r show ?thesis by (intro conjI)
qed

text \<open>
  C10. Every committed receipt also overwrites the \<open>cost\<close> field of the
  product with the unit cost of the received line item (of the last such
  line item, should the product appear in several line items of the order);
  and \<open>handleItemChange\<close> takes that field as the unit cost of a line item
  when the product is chosen in the order form.
\<close>

theorem receipt_overwrites_cost:
  "(handleReceiveItems d oid ord = (Succeeded, d') \<longrightarrow>
      (\<forall>item\<in>set (items ord). \<exists>p'. products d' (productId item) = Some p' \<and>
          cost p' = item_cost (last (filter (\<lambda>i. productId i = productId item) (items ord))))) \<and>
   (index < length itms \<longrightarrow> catalogue k = Some p \<longrightarrow>
      (\<exists>itms'. handleItemChange isSales selectedCustomer catalogue itms index (ProductIdValue k)
                  = Inr itms' \<and>
               length itms' = length itms \<and>
               productId (itms' ! index) = k \<and>
               item_cost (itms' ! index) = cost p))"
proof (intro conjI impI)
  assume ok: "handleReceiveItems d oid ord = (Succeeded, d')"
  then show "\<forall>item\<in>set (items ord). \<exists>p'. products d' (productId item) = Some p' \<and>
          cost p' = item_cost (last (filter (\<lambda>i. productId i = productId item) (items ord)))"
  proof (cases rule: handleReceiveItems_Succeeded_cases)
    case (empty orderDoc)
    then show ?thesis by simp
  next
    case (one orderDoc it p0)
    from ok have d': "d' = snd (handleReceiveItems d oid ord)" by simp
    show ?thesis
      unfolding d' handleReceiveItems_one [OF one] using one(1) by simp
  qed
next
  assume "index < length itms" and "catalogue k = Some p"
  then show "\<exists>itms'. handleItemChange isSales selectedCustomer catalogue itms index (ProductIdValue k)
                  = Inr itms' \<and>
               length itms' = length itms \<and>
               productId (itms' ! index) = k \<and>
               item_cost (itms' ! index) = cost p"
    by (simp add: handleItemChange_def Let_def)
qed

text \<open>
  The first receipt of the scenario sets the cost of the product to 100;
  choosing the product in a new purchase form then proposes 100.
\<close>

theorem receipt_overwrites_cost_witness:
  "\<exists>d' p' itms'.
     handleReceiveItems scenario_db ''po1'' (order_doc ''PO-1'' ''Pending'' [line ''P'' 10 100])
       = (Succeeded, d') \<and>
     products d' ''P'' = Some p' \<and> cost p' = 100 \<and>
     handleItemChange False None (products d') [line [] 1 0] 0 (ProductIdValue ''P'') = Inr itms' \<and>
     map productId itms' = [''P''] \<and> map item_cost itms' = [100]"
proof -
  let ?po = "order_doc ''PO-1'' ''Pending'' [line ''P'' 10 100]"
  define d' where "d' = snd (handleReceiveItems scenario_db ''po1'' ?po)"
  have rcv: "handleReceiveItems scenario_db ''po1'' ?po = (Succeeded, d')"
    by (simp add: d'_def handler_defs scenario_db_def example_defs)
  have mem: "line ''P'' 10 100 \<in> set (items ?po)"
    by (simp add: order_doc_def)
  note inst = receipt_overwrites_cost [where d = scenario_db and oid = "''po1''" and ord = ?po
      and d' = d' and index = 0 and itms = "[line [] 1 0]" and catalogue = "products d'"
      and k = "''P''" and isSales = False and selectedCustomer = None]
  from inst rcv mem obtain p' where
    p': "products d' (productId (line ''P'' 10 100)) = Some p'"
        "cost p' = item_cost (last (filter (\<lambda>i. productId i = productId (line ''P'' 10 100)) (items ?po)))"
    by blast
  then have a: "products d' ''P'' = Some p'" and b: "cost p' = 100"
    by (simp_all add: scenario_db_def example_defs)
  from inst [of p'] a obtain itms' where
    c: "handleItemChange False None (products d') [line [] 1 0] 0 (ProductIdValue ''P'') = Inr itms'"
    and l: "length itms' = length [line [] 1 0]"
    and i: "productId (itms' ! 0) = ''P''" "item_cost (itms' ! 0) = cost p'"
    by auto
  from l obtain x where x: "itms' = [x]"
    by (cases itms') auto
  with i b have e: "map productId itms' = [''P'']" "map item_cost itms' = [100]"
    by simp_all
  show ?thesis
    by (rule exI [of _ d'], rule exI [of _ p'], rule exI [of _ itms'])
       (intro conjI rcv a b c e)
qed

text \<open>
  C2 at an order the code does not handle as claimed. The first line item (one
  unit of \<open>A\<close>, five in stock) can be satisfied, the second (nine units of
  \<open>B\<close>, two in stock) cannot. The shipment fails and changes nothing, but
  the failure is the rejection of the second read by the database library,
  not \<open>InsufficientStock\<close>: the product of the second line item is read after
  the write for the first one was staged.
\<close>

theorem ship_short_second_line:
  "map_option stock (products two_products_db ''A'') = Some 5 \<and>
   map_option stock (products two_products_db ''B'') = Some 2 \<and>
   handleShipOrder True two_products_db ''so1''
       (order_doc ''SO-1'' ''Pending Shipment'' [line ''A'' 1 0, line ''B'' 9 0])
     = (Failed ReadAfterWrite, two_products_db)"
  by (simp add: handler_defs two_products_db_def example_defs)

text \<open>
  C3 at a sales order that was already shipped. \<open>handleShipOrder\<close> never
  reads the stored order, so a second call for the same order (from a client
  that still shows it as awaiting shipment) succeeds again: the stock goes
  from 10 to 7 and then to 4, and a second inventory log entry is written.
\<close>

theorem ship_twice:
  "fst (handleShipOrder True (shop_db ''Pending'') ''so1''
          (order_doc ''SO-1'' ''Pending Shipment'' [line ''P'' 3 0])) = Succeeded \<and>
   map_option status (salesOrders shipped_db ''so1'') = Some ''Completed'' \<and>
   map_option stock (products shipped_db ''P'') = Some 7 \<and>
   length (inventoryLogs shipped_db) = 1 \<and>
   fst (handleShipOrder True shipped_db ''so1''
          (order_doc ''SO-1'' ''Pending Shipment'' [line ''P'' 3 0])) = Succeeded \<and>
   map_option stock
     (products (snd (handleShipOrder True shipped_db ''so1''
                       (order_doc ''SO-1'' ''Pending Shipment'' [line ''P'' 3 0]))) ''P'') = Some 4 \<and>
   length (inventoryLogs (snd (handleShipOrder True shipped_db ''so1''
                       (order_doc ''SO-1'' ''Pending Shipment'' [line ''P'' 3 0])))) = 2"
  by (simp add: shipped_db_def handler_defs shop_db_def example_defs)

text \<open>
  C6 at a purchase order with two line items for the same product, 10 units
  at 100 and 5 units at 130. The claim gives an average cost of
  (10 * 100 + 5 * 130) / 15 = 110. The receipt is rejected at the read for
  the second line item, nothing is received, and the average cost stays 0.
\<close>

theorem receive_two_lines:
  "handleReceiveItems two_lines_db ''po1''
       (order_doc ''PO-1'' ''Pending'' [line ''P'' 10 100, line ''P'' 5 130])
     = (Failed ReadAfterWrite, two_lines_db) \<and>
   map_option stock (products two_lines_db ''P'') = Some 0 \<and>
   map_option averageCost (products two_lines_db ''P'') = Some 0 \<and>
   (10 * 100 + 5 * 130) / (10 + 5) = (110 :: rat)"
  by (simp add: handler_defs two_lines_db_def example_defs)

end
